theory Spec2Isabelle
  imports Main
begin

section \<open>The module header of iaf\_cond\_ampa\_gaba\_nmda\_deco2014\<close>

text \<open>
  The repository file \<^verbatim>\<open>iaf_cond_ampa_gaba_nmda_deco2014module.h\<close> holds no function
  body: it is an include guard around two host includes and one class declaration.
  The development therefore embeds the file the way it is written: the class
  declaration as a record (one entry per declared member, in source order), and the
  file as the list of its preprocessor-level lines. The bodies of the five member
  functions live in a companion implementation file that is not part of the sources;
  where a property depends on them they are modelled separately, further below, and
  marked as such.
\<close>

subsection \<open>Declarations as data\<close>

datatype access = Public | Protected | Private

text \<open>The types the declaration writes: \<^verbatim>\<open>void\<close>, a named type, \<^verbatim>\<open>const T\<close>, \<^verbatim>\<open>T*\<close>.\<close>

datatype cpp_type = Void | Named string | Const cpp_type | Pointer cpp_type

datatype member_kind = Constructor | Destructor | Method

text \<open>
  A member function declaration: the access section it stands in, its kind, its name,
  its return type (\<open>None\<close> for a constructor or destructor, which have none), the
  parameter types (\<^verbatim>\<open>( void )\<close> is the empty list) and the trailing \<^verbatim>\<open>const\<close>.
\<close>

record member_decl =
  m_access :: access
  m_kind :: member_kind
  m_name :: string
  m_ret :: "cpp_type option"
  m_params :: "cpp_type list"
  m_const :: bool

record field_decl =
  f_access :: access
  f_name :: string
  f_type :: cpp_type

record class_decl =
  c_name :: string
  c_bases :: "(access \<times> string) list"
  c_members :: "member_decl list"
  c_fields :: "field_decl list"
  c_nested :: "string list"

text \<open>Line 45: \<^verbatim>\<open>iaf_cond_ampa_gaba_nmda_deco2014module();\<close>\<close>

definition ctor_decl :: member_decl where
  "ctor_decl = \<lparr> m_access = Public, m_kind = Constructor,
      m_name = ''iaf_cond_ampa_gaba_nmda_deco2014module'',
      m_ret = None, m_params = [], m_const = False \<rparr>"

text \<open>Line 50: \<^verbatim>\<open>~iaf_cond_ampa_gaba_nmda_deco2014module();\<close>\<close>

definition dtor_decl :: member_decl where
  "dtor_decl = \<lparr> m_access = Public, m_kind = Destructor,
      m_name = ''~iaf_cond_ampa_gaba_nmda_deco2014module'',
      m_ret = None, m_params = [], m_const = False \<rparr>"

text \<open>Line 56: \<^verbatim>\<open>void init( SLIInterpreter* );\<close>\<close>

definition init_decl :: member_decl where
  "init_decl = \<lparr> m_access = Public, m_kind = Method, m_name = ''init'',
      m_ret = Some Void, m_params = [Pointer (Named ''SLIInterpreter'')],
      m_const = False \<rparr>"

text \<open>Line 61: \<^verbatim>\<open>const std::string name( void ) const;\<close>\<close>

definition name_decl :: member_decl where
  "name_decl = \<lparr> m_access = Public, m_kind = Method, m_name = ''name'',
      m_ret = Some (Const (Named ''std::string'')), m_params = [], m_const = True \<rparr>"

text \<open>Line 68: \<^verbatim>\<open>const std::string commandstring( void ) const;\<close>\<close>

definition commandstring_decl :: member_decl where
  "commandstring_decl = \<lparr> m_access = Public, m_kind = Method, m_name = ''commandstring'',
      m_ret = Some (Const (Named ''std::string'')), m_params = [], m_const = True \<rparr>"

text \<open>
  Lines 36 to 73: \<^verbatim>\<open>class iaf_cond_ampa_gaba_nmda_deco2014module : public SLIModule\<close>
  with its first \<^verbatim>\<open>public:\<close> section holding the five member functions and its second
  \<^verbatim>\<open>public:\<close> section (line 70, "Classes implementing your functions") left empty.
\<close>

definition iaf_cond_ampa_gaba_nmda_deco2014module :: class_decl where
  "iaf_cond_ampa_gaba_nmda_deco2014module =
     \<lparr> c_name = ''iaf_cond_ampa_gaba_nmda_deco2014module'',
       c_bases = [(Public, ''SLIModule'')],
       c_members = [ctor_decl, dtor_decl, init_decl, name_decl, commandstring_decl],
       c_fields = [],
       c_nested = [] \<rparr>"

definition public_members :: "class_decl \<Rightarrow> member_decl list" where
  "public_members c = filter (\<lambda>m. m_access m = Public) (c_members c)"

definition hidden_members :: "class_decl \<Rightarrow> member_decl list" where
  "hidden_members c = filter (\<lambda>m. m_access m \<noteq> Public) (c_members c)"

subsection \<open>The file as preprocessor lines\<close>

datatype directive =
    IfNDef string
  | Define string
  | Include string
  | ClassDef class_decl
  | EndIf

text \<open>Lines 25, 26 and 75: the guard macro.\<close>

definition IAF_COND_DECO2014MODULE_H :: string where
  "IAF_COND_DECO2014MODULE_H = ''IAF_COND_DECO2014MODULE_H''"

definition module_header :: "directive list" where
  "module_header =
     [ IfNDef IAF_COND_DECO2014MODULE_H,
       Define IAF_COND_DECO2014MODULE_H,
       Include ''slimodule.h'',
       Include ''slifunction.h'',
       ClassDef iaf_cond_ampa_gaba_nmda_deco2014module,
       EndIf ]"

text \<open>The classes a file defines at its top level.\<close>

fun classes_of :: "directive list \<Rightarrow> class_decl list" where
  "classes_of [] = []"
| "classes_of (ClassDef c # ds) = c # classes_of ds"
| "classes_of (_ # ds) = classes_of ds"

subsection \<open>Result types\<close>



subsection \<open>Exceptions\<close>





subsection \<open>Objects of a class and calls on them\<close>

text \<open>
  The state an object owns is the values of the data members its class declares (the
  state of base-class subobjects belongs to the base class). What a member function's
  body can do to the world is a sequence of effects: an assignment to a data member of
  its own object, or an action on the host. The bodies of this class are not in the
  sources, so the sequence is a parameter, and so is what a host action does.
\<close>

datatype ('v, 'a) effect = Assign string 'v | HostAction 'a

definition declares_field :: "class_decl \<Rightarrow> string \<Rightarrow> bool" where
  "declares_field c f = (f \<in> set (map f_name (c_fields c)))"

text \<open>
  Running a body on an object and a host state. An assignment to a member the class
  does not declare is not a program at all (the compiler refuses it): \<open>None\<close>.
\<close>

fun run_body :: "class_decl \<Rightarrow> ('a \<Rightarrow> 'h \<Rightarrow> 'h) \<Rightarrow> ('v, 'a) effect list
    \<Rightarrow> (string \<rightharpoonup> 'v) \<times> 'h \<Rightarrow> ((string \<rightharpoonup> 'v) \<times> 'h) option" where
  "run_body c step [] st = Some st"
| "run_body c step (Assign f v # es) (obj, h) =
     (if declares_field c f then run_body c step es (obj(f \<mapsto> v), h) else None)"
| "run_body c step (HostAction a # es) (obj, h) = run_body c step es (obj, step a h)"

fun assigned_fields :: "('v, 'a) effect list \<Rightarrow> string list" where
  "assigned_fields [] = []"
| "assigned_fields (Assign f v # es) = f # assigned_fields es"
| "assigned_fields (HostAction a # es) = assigned_fields es"

fun host_actions :: "('v, 'a) effect list \<Rightarrow> 'a list" where
  "host_actions [] = []"
| "host_actions (Assign f v # es) = host_actions es"
| "host_actions (HostAction a # es) = a # host_actions es"

text \<open>
  A call of a member function runs a body on the object and yields a result and the
  object afterwards. The bodies of this class are not in the sources, so the body is a
  parameter. Through a declaration with a trailing \<^verbatim>\<open>const\<close> the body sees the object
  as constant: whatever the body is, the caller's object is the one it passed in.
\<close>

definition invoke :: "member_decl \<Rightarrow> ('v list \<Rightarrow> 'r \<times> 'v list) \<Rightarrow> 'v list \<Rightarrow> 'r \<times> 'v list" where
  "invoke m body s = (if m_const m then (fst (body s), s) else body s)"

subsection \<open>Conditional inclusion\<close>

text \<open>
  What the preprocessor hands to the compiler: the class definitions of this file and
  whatever the host headers declare. The host headers \<^verbatim>\<open>slimodule.h\<close> and
  \<^verbatim>\<open>slifunction.h\<close> belong to the simulator, not to this repository, so their content is a
  parameter: given the header's name and the macros defined so far, the declarations it
  contributes and the macros defined afterwards.
\<close>

datatype toplevel_decl = HostDeclaration string | ClassDeclaration class_decl

type_synonym host_headers = "string \<Rightarrow> string set \<Rightarrow> toplevel_decl list \<times> string set"

text \<open>
  The preprocessor's state: the defined macros, how many open conditionals are being
  skipped (\<open>0\<close>: text is live), and the declarations passed on so far.
\<close>

record pp_state =
  macros :: "string set"
  skipping :: nat
  emitted :: "toplevel_decl list"

fun pp_step :: "host_headers \<Rightarrow> directive \<Rightarrow> pp_state \<Rightarrow> pp_state" where
  "pp_step H (IfNDef m) s =
     (if 0 < skipping s then s\<lparr>skipping := skipping s + 1\<rparr>
      else if m \<in> macros s then s\<lparr>skipping := 1\<rparr>
      else s)"
| "pp_step H EndIf s =
     (if 0 < skipping s then s\<lparr>skipping := skipping s - 1\<rparr> else s)"
| "pp_step H (Define m) s =
     (if 0 < skipping s then s else s\<lparr>macros := insert m (macros s)\<rparr>)"
| "pp_step H (Include h) s =
     (if 0 < skipping s then s
      else s\<lparr>macros := snd (H h (macros s)), emitted := emitted s @ fst (H h (macros s))\<rparr>)"
| "pp_step H (ClassDef c) s =
     (if 0 < skipping s then s else s\<lparr>emitted := emitted s @ [ClassDeclaration c]\<rparr>)"

text \<open>One \<^verbatim>\<open>#include\<close> of the module header, and \<open>n\<close> of them in a row.\<close>

definition include_module_header :: "host_headers \<Rightarrow> pp_state \<Rightarrow> pp_state" where
  "include_module_header H s = fold (pp_step H) module_header s"

primrec include_times :: "host_headers \<Rightarrow> nat \<Rightarrow> pp_state \<Rightarrow> pp_state" where
  "include_times H 0 s = s"
| "include_times H (Suc n) s = include_times H n (include_module_header H s)"

text \<open>A host header is well behaved towards this file when it never undefines its guard.\<close>

definition keeps_guard :: "host_headers \<Rightarrow> bool" where
  "keeps_guard H =
     (\<forall>h M. IAF_COND_DECO2014MODULE_H \<in> M \<longrightarrow> IAF_COND_DECO2014MODULE_H \<in> snd (H h M))"

section \<open>The member functions' behaviour\<close>

text \<open>
  The implementation file of the class is not among the sources. The definitions of
  this section follow the specification and the header's documentation comments instead;
  each says so. The strings the implementation fixes (the module's name, the name of its
  script file, the name of the neuron model) are not visible either and are parameters.
\<close>

record module_info =
  modname :: string
  sli_file :: string
  neuron_model :: string

text \<open>
  The host side: the modules known to the dynamic loader and the models registered with
  the network kernel, in order of registration.
\<close>

record nest_state =
  dynamic_loader :: "string list"
  network :: "string list"

type_synonym sli_interpreter = nat

text \<open>Modelled from the spec: the constructor's body, which is in the absent implementation
  file. "A constructor that registers the module with a dynamic loader"; the header notes
  that "initialization proper is performed by the init() method".
\<close>

definition module_ctor :: "module_info \<Rightarrow> nest_state \<Rightarrow> nest_state" where
  "module_ctor mi h = h\<lparr>dynamic_loader := dynamic_loader h @ [modname mi]\<rparr>"

text \<open>Modelled from the spec: the destructor's body, which is in the absent implementation
  file. "A destructor"; the header notes that it "does not do much in modules".
\<close>

definition module_dtor :: "module_info \<Rightarrow> nest_state \<Rightarrow> nest_state" where
  "module_dtor mi h = h"

text \<open>Modelled from the spec: the body of \<open>init\<close>, which is in the absent implementation file.
  It "registers one neuron model type with the host's network-construction subsystem".
\<close>

definition init :: "module_info \<Rightarrow> sli_interpreter \<Rightarrow> nest_state \<Rightarrow> nest_state" where
  "init mi i h = h\<lparr>network := network h @ [neuron_model mi]\<rparr>"

text \<open>Modelled from the spec: the body of \<open>name\<close>, which is in the absent implementation file.
  It "returns a fixed identifying string for the module".
\<close>

definition name :: "module_info \<Rightarrow> nest_state \<Rightarrow> string" where
  "name mi h = modname mi"

text \<open>Modelled from the spec: the body of \<open>commandstring\<close>, which is in the absent
  implementation file. It "returns the name of a companion script file the host should
  execute on load".
\<close>

definition commandstring :: "module_info \<Rightarrow> nest_state \<Rightarrow> string" where
  "commandstring mi h = sli_file mi"

text \<open>Calls the host can make on the module, what each hands back, and runs of calls.\<close>

datatype module_call = Construct | Destruct | Init sli_interpreter | Name | Commandstring

datatype reply = Nothing | Text string

fun exec :: "module_info \<Rightarrow> module_call \<Rightarrow> nest_state \<Rightarrow> reply \<times> nest_state" where
  "exec mi Construct h = (Nothing, module_ctor mi h)"
| "exec mi Destruct h = (Nothing, module_dtor mi h)"
| "exec mi (Init i) h = (Nothing, init mi i h)"
| "exec mi Name h = (Text (name mi h), h)"
| "exec mi Commandstring h = (Text (commandstring mi h), h)"

primrec run :: "module_info \<Rightarrow> module_call list \<Rightarrow> nest_state \<Rightarrow> nest_state" where
  "run mi [] h = h"
| "run mi (c # cs) h = run mi cs (snd (exec mi c h))"

fun is_init :: "module_call \<Rightarrow> bool" where
  "is_init (Init i) = True"
| "is_init c = False"

section \<open>The declared interface\<close>

text \<open>
  C1: the public interface of the class is the constructor, the destructor, \<open>init\<close> and
  the two accessors \<open>name\<close> and \<open>commandstring\<close>, and nothing else. The five public member
  functions fall into the four groups the specification lists (one constructor, one
  destructor, one non-const method \<open>init\<close>, the two const accessors); no member is
  declared outside a public section, and the class declares no data member and no
  nested class.
\<close>

theorem public_interface_is_five_functions_in_four_groups:
  "public_members iaf_cond_ampa_gaba_nmda_deco2014module =
     [ctor_decl, dtor_decl, init_decl, name_decl, commandstring_decl]
   \<and> filter (\<lambda>m. m_kind m = Constructor) (public_members iaf_cond_ampa_gaba_nmda_deco2014module)
       = [ctor_decl]
   \<and> filter (\<lambda>m. m_kind m = Destructor) (public_members iaf_cond_ampa_gaba_nmda_deco2014module)
       = [dtor_decl]
   \<and> filter (\<lambda>m. m_kind m = Method \<and> \<not> m_const m)
        (public_members iaf_cond_ampa_gaba_nmda_deco2014module) = [init_decl]
   \<and> filter (\<lambda>m. m_kind m = Method \<and> m_const m)
        (public_members iaf_cond_ampa_gaba_nmda_deco2014module) = [name_decl, commandstring_decl]
   \<and> map m_name (public_members iaf_cond_ampa_gaba_nmda_deco2014module) =
       [''iaf_cond_ampa_gaba_nmda_deco2014module'', ''~iaf_cond_ampa_gaba_nmda_deco2014module'',
        ''init'', ''name'', ''commandstring'']
   \<and> hidden_members iaf_cond_ampa_gaba_nmda_deco2014module = []
   \<and> c_fields iaf_cond_ampa_gaba_nmda_deco2014module = []
   \<and> c_nested iaf_cond_ampa_gaba_nmda_deco2014module = []"
  by (simp add: public_members_def hidden_members_def iaf_cond_ampa_gaba_nmda_deco2014module_def
      ctor_decl_def dtor_decl_def init_decl_def name_decl_def commandstring_decl_def)

text \<open>
  C5: the class derives, publicly, from the host's module base type \<open>SLIModule\<close> and from
  nothing else, and this class is the only thing the file defines: its other lines are
  the include guard and the two host includes.
\<close>

theorem derives_from_SLIModule_only:
  "c_bases iaf_cond_ampa_gaba_nmda_deco2014module = [(Public, ''SLIModule'')]
   \<and> classes_of module_header = [iaf_cond_ampa_gaba_nmda_deco2014module]
   \<and> c_name iaf_cond_ampa_gaba_nmda_deco2014module = ''iaf_cond_ampa_gaba_nmda_deco2014module''"
  by (simp add: module_header_def iaf_cond_ampa_gaba_nmda_deco2014module_def)



section \<open>The module object\<close>

text \<open>The class declares no data member, so no name is one of its fields.\<close>

lemma module_declares_no_field:
  "declares_field iaf_cond_ampa_gaba_nmda_deco2014module f = False"
  by (simp add: declares_field_def iaf_cond_ampa_gaba_nmda_deco2014module_def)

lemma run_body_of_module:
  "run_body iaf_cond_ampa_gaba_nmda_deco2014module step es (obj, h) =
     (if assigned_fields es = [] then Some (obj, fold step (host_actions es) h) else None)"
proof (induction es arbitrary: h)
  case Nil
  show ?case by simp
next
  case (Cons e es)
  show ?case
  proof (cases e)
    case (Assign f v)
    then show ?thesis by (simp add: module_declares_no_field)
  next
    case (HostAction a)
    then show ?thesis using Cons.IH [of "step a h"] by simp
  qed
qed

text \<open>
  C8: the class declares no data member and no nested class, so the module object
  carries no state of its own. Whatever the body of a member function is, it either
  assigns to no member of the object, and then the object is afterwards what it was
  and the host state is the one its host actions produce, or it is no program of this
  class. A body that assigns to the object is refused. All state the module changes is
  the host's.
\<close>

theorem module_object_has_no_state_to_change:
  "run_body iaf_cond_ampa_gaba_nmda_deco2014module step es (obj, h) =
     (if assigned_fields es = [] then Some (obj, fold step (host_actions es) h) else None)
   \<and> run_body iaf_cond_ampa_gaba_nmda_deco2014module step (Assign f v # es) (obj, h) = None
   \<and> c_fields iaf_cond_ampa_gaba_nmda_deco2014module = []
   \<and> c_nested iaf_cond_ampa_gaba_nmda_deco2014module = []"
  by (simp add: run_body_of_module module_declares_no_field)
     (simp add: iaf_cond_ampa_gaba_nmda_deco2014module_def)

text \<open>
  C9: \<open>name\<close> and \<open>commandstring\<close> are declared \<^verbatim>\<open>const\<close>, and they are the only members that
  are; a call of either, whatever its body, hands the object back as it was.
\<close>

theorem accessors_are_const_observers:
  "m_const name_decl \<and> m_const commandstring_decl
   \<and> snd (invoke name_decl body s) = s
   \<and> snd (invoke commandstring_decl body' s) = s
   \<and> filter m_const (c_members iaf_cond_ampa_gaba_nmda_deco2014module) = [name_decl, commandstring_decl]"
  by (simp add: invoke_def iaf_cond_ampa_gaba_nmda_deco2014module_def
      ctor_decl_def dtor_decl_def init_decl_def name_decl_def commandstring_decl_def)

section \<open>The include guard\<close>

text \<open>
  Once the guard macro is defined, or while an enclosing conditional is being skipped,
  an inclusion of the header changes nothing; an inclusion in live text defines the guard.
\<close>

lemma include_when_defined:
  "IAF_COND_DECO2014MODULE_H \<in> macros s \<Longrightarrow> include_module_header H s = s"
  by (simp add: include_module_header_def module_header_def)

lemma include_when_skipping:
  "0 < skipping s \<Longrightarrow> include_module_header H s = s"
  by (simp add: include_module_header_def module_header_def)

lemma include_defines_guard:
  "keeps_guard H \<Longrightarrow> skipping s = 0 \<Longrightarrow>
     IAF_COND_DECO2014MODULE_H \<in> macros (include_module_header H s)"
  by (simp add: include_module_header_def module_header_def keeps_guard_def)

lemma include_twice:
  assumes "keeps_guard H"
  shows "include_module_header H (include_module_header H s) = include_module_header H s"
proof (cases "skipping s = 0")
  case True
  with assms have "IAF_COND_DECO2014MODULE_H \<in> macros (include_module_header H s)"
    by (rule include_defines_guard)
  then show ?thesis by (rule include_when_defined)
next
  case False
  then have "include_module_header H s = s" by (simp add: include_when_skipping)
  then show ?thesis by simp
qed

lemma include_times_fixed:
  "include_module_header H s = s \<Longrightarrow> include_times H n s = s"
  by (induction n) simp_all

text \<open>
  C10: the header is wrapped in the include guard \<open>IAF_COND_DECO2014MODULE_H\<close>, so
  including it any number of times, one or more, leaves the preprocessor in the state
  one inclusion leaves it in; in particular the same declarations have been passed on.
  This holds from every state of the preprocessor, provided the two host headers the
  file pulls in do not undefine the guard.
\<close>

theorem include_guard_makes_inclusion_idempotent:
  assumes "keeps_guard H" and "0 < n"
  shows "include_times H n s = include_module_header H s
       \<and> emitted (include_times H n s) = emitted (include_times H 1 s)"
proof -
  from \<open>0 < n\<close> obtain k where n: "n = Suc k" by (cases n) auto
  have "include_times H k (include_module_header H s) = include_module_header H s"
    using assms(1) by (intro include_times_fixed include_twice)
  then show ?thesis by (simp add: n)
qed

theorem include_guard_makes_inclusion_idempotent_witness:
  "keeps_guard (\<lambda>h M. ([HostDeclaration h], M)) \<and> (0::nat) < 3
   \<and> emitted (include_times (\<lambda>h M. ([HostDeclaration h], M)) 3
        \<lparr>macros = {}, skipping = 0, emitted = []\<rparr>)
      = [HostDeclaration ''slimodule.h'', HostDeclaration ''slifunction.h'',
         ClassDeclaration iaf_cond_ampa_gaba_nmda_deco2014module]"
proof -
  have k: "keeps_guard (\<lambda>h M. ([HostDeclaration h], M))"
    by (simp add: keeps_guard_def)
  have n: "(0::nat) < 3" by simp
  have "include_times (\<lambda>h M. ([HostDeclaration h], M)) 3
          \<lparr>macros = {}, skipping = 0, emitted = []\<rparr>
      = include_module_header (\<lambda>h M. ([HostDeclaration h], M))
          \<lparr>macros = {}, skipping = 0, emitted = []\<rparr>"
    using include_guard_makes_inclusion_idempotent [OF k n] by (rule conjunct1)
  then show ?thesis using k
    by (simp add: include_module_header_def module_header_def)
qed

section \<open>Registration and the accessors\<close>

text \<open>
  C2: a call of \<open>init\<close>, with whatever interpreter pointer the host passes, registers
  exactly one neuron model with the network kernel (the registry grows by that one
  entry), registers nothing with the dynamic loader, and returns \<^verbatim>\<open>void\<close>.
\<close>

theorem init_registers_exactly_one_model:
  "exec mi (Init i) h = (Nothing, h\<lparr>network := network h @ [neuron_model mi]\<rparr>)
   \<and> length (network (snd (exec mi (Init i) h))) = Suc (length (network h))
   \<and> dynamic_loader (snd (exec mi (Init i) h)) = dynamic_loader h
   \<and> m_ret init_decl = Some Void
   \<and> m_params init_decl = [Pointer (Named ''SLIInterpreter'')]"
  by (simp add: init_def init_decl_def)

text \<open>
  C3: \<open>name\<close> returns one fixed string: the same after any run of earlier calls and
  from any state of the host, and the call changes nothing.
\<close>

theorem name_returns_a_fixed_string:
  "fst (exec mi Name h) = Text (modname mi)
   \<and> fst (exec mi Name (run mi cs h)) = fst (exec mi Name h')
   \<and> snd (exec mi Name h) = h
   \<and> m_ret name_decl = Some (Const (Named ''std::string''))
   \<and> m_params name_decl = []"
  by (simp add: name_def name_decl_def)

text \<open>
  C4: \<open>commandstring\<close> returns the name of the module's script file, one fixed string: the
  same after any run of earlier calls and from any state of the host, and the call
  changes nothing.
\<close>

theorem commandstring_returns_the_fixed_script_name:
  "fst (exec mi Commandstring h) = Text (sli_file mi)
   \<and> fst (exec mi Commandstring (run mi cs h)) = fst (exec mi Commandstring h')
   \<and> snd (exec mi Commandstring h) = h
   \<and> m_ret commandstring_decl = Some (Const (Named ''std::string''))
   \<and> m_params commandstring_decl = []"
  by (simp add: commandstring_def commandstring_decl_def)

text \<open>A call other than \<open>init\<close> leaves the network kernel alone, and so does a run of them.\<close>

lemma exec_keeps_network:
  "\<not> is_init c \<Longrightarrow> network (snd (exec mi c h)) = network h"
  by (cases c) (simp_all add: module_ctor_def module_dtor_def)

lemma run_keeps_network:
  "filter is_init cs = [] \<Longrightarrow> network (run mi cs h) = network h"
proof (induction cs arbitrary: h)
  case Nil
  show ?case by simp
next
  case (Cons c cs)
  from Cons.prems have c: "\<not> is_init c" and cs: "filter is_init cs = []"
    by (auto split: if_splits)
  have "network (run mi (c # cs) h) = network (snd (exec mi c h))"
    using Cons.IH [OF cs] by simp
  also have "\<dots> = network h" using c by (rule exec_keeps_network)
  finally show ?case .
qed

text \<open>
  C6: the constructor registers the module with the dynamic loader and does nothing
  else; the neuron model is registered with the network kernel by \<open>init\<close> alone, which in
  turn leaves the dynamic loader alone. After construction and any run of calls that
  holds no \<open>init\<close>, the network kernel is as it was.
\<close>

theorem network_kernel_untouched_before_init:
  assumes "filter is_init cs = []"
  shows "network (run mi (Construct # cs) h) = network h
       \<and> network (run mi cs h) = network h
       \<and> snd (exec mi Construct h) = h\<lparr>dynamic_loader := dynamic_loader h @ [modname mi]\<rparr>
       \<and> dynamic_loader (snd (exec mi (Init i) h)) = dynamic_loader h
       \<and> network (snd (exec mi (Init i) h)) = network h @ [neuron_model mi]"
proof -
  have "filter is_init (Construct # cs) = []" using assms by simp
  then have "network (run mi (Construct # cs) h) = network h" by (rule run_keeps_network)
  moreover have "network (run mi cs h) = network h" using assms by (rule run_keeps_network)
  ultimately show ?thesis by (simp add: module_ctor_def init_def)
qed

theorem network_kernel_untouched_before_init_witness:
  "filter is_init [Name, Commandstring, Destruct] = []
   \<and> network (run \<lparr>modname = ''m'', sli_file = ''s'', neuron_model = ''n''\<rparr>
        [Construct, Name, Commandstring, Destruct] \<lparr>dynamic_loader = [], network = []\<rparr>) = []
   \<and> dynamic_loader (run \<lparr>modname = ''m'', sli_file = ''s'', neuron_model = ''n''\<rparr>
        [Construct, Name, Commandstring, Destruct] \<lparr>dynamic_loader = [], network = []\<rparr>) = [''m'']"
proof -
  have f: "filter is_init [Name, Commandstring, Destruct] = []" by simp
  have "network (run \<lparr>modname = ''m'', sli_file = ''s'', neuron_model = ''n''\<rparr>
        (Construct # [Name, Commandstring, Destruct]) \<lparr>dynamic_loader = [], network = []\<rparr>)
      = network \<lparr>dynamic_loader = [], network = []\<rparr>"
    using network_kernel_untouched_before_init [OF f] by (rule conjunct1)
  then show ?thesis by (simp add: module_ctor_def module_dtor_def)
qed

end
